theory Spec2Isabelle
  imports Main "HOL-Library.Sublist"
begin

section \<open>Text and the fragment of Python's \<open>re\<close> the sources use\<close>

text \<open>
  Python \<open>str\<close> values are modelled as \<^typ>\<open>string\<close>. The sources only inspect ASCII
  text (keywords, identifiers, digits, white space); the few non-ASCII characters of the
  literal templates are written as their UTF-8 bytes.
\<close>

datatype py_error = IndexError | UnboundLocalError | RuntimeError string | ExternalError string

definition NL :: char where
  "NL = CHR 0x0A"

definition is_space :: "char \<Rightarrow> bool" where
  "is_space c = (let n = (of_char c :: nat) in (9 \<le> n \<and> n \<le> 13) \<or> (28 \<le> n \<and> n \<le> 32))"

definition is_digit :: "char \<Rightarrow> bool" where
  "is_digit c = (let n = (of_char c :: nat) in 48 \<le> n \<and> n \<le> 57)"

definition is_word :: "char \<Rightarrow> bool" where
  "is_word c = (let n = (of_char c :: nat) in
     (48 \<le> n \<and> n \<le> 57) \<or> (65 \<le> n \<and> n \<le> 90) \<or> n = 95 \<or> (97 \<le> n \<and> n \<le> 122))"

text \<open>\<open>str.lower\<close> on ASCII text.\<close>

definition lower_char :: "char \<Rightarrow> char" where
  "lower_char c = (let n = (of_char c :: nat) in if 65 \<le> n \<and> n \<le> 90 then char_of (n + 32) else c)"

definition lower :: "string \<Rightarrow> string" where
  "lower s = map lower_char s"

text \<open>The operator \<open>sub in s\<close> on strings.\<close>

fun str_contains :: "string \<Rightarrow> string \<Rightarrow> bool" where
  "str_contains sub [] = (sub = [])"
| "str_contains sub (c # cs) = (prefix sub (c # cs) \<or> str_contains sub cs)"

text \<open>\<open>s.find(sub)\<close> and \<open>s.rfind(sub)\<close>: the least and the greatest index at which
  \<open>sub\<close> occurs, \<open>-1\<close> when it does not occur.\<close>

fun find_at :: "string \<Rightarrow> nat \<Rightarrow> string \<Rightarrow> int" where
  "find_at sub i [] = (if sub = [] then int i else - 1)"
| "find_at sub i (c # cs) = (if prefix sub (c # cs) then int i else find_at sub (Suc i) cs)"

definition str_find :: "string \<Rightarrow> string \<Rightarrow> int" where
  "str_find s sub = find_at sub 0 s"

fun rfind_at :: "string \<Rightarrow> nat \<Rightarrow> string \<Rightarrow> int" where
  "rfind_at sub i [] = (if sub = [] then int i else - 1)"
| "rfind_at sub i (c # cs) =
     (let r = rfind_at sub (Suc i) cs
      in if r \<noteq> - 1 then r else if prefix sub (c # cs) then int i else - 1)"

definition str_rfind :: "string \<Rightarrow> string \<Rightarrow> int" where
  "str_rfind s sub = rfind_at sub 0 s"

text \<open>The slice \<open>s[a:b]\<close> for indices that are not negative, and \<open>s[:n]\<close>.\<close>

definition slice :: "string \<Rightarrow> int \<Rightarrow> int \<Rightarrow> string" where
  "slice s a b = take (nat b - nat a) (drop (nat a) s)"

text \<open>\<open>sep.join(xs)\<close>.\<close>

fun join :: "string \<Rightarrow> string list \<Rightarrow> string" where
  "join sep [] = []"
| "join sep [x] = x"
| "join sep (x # y # ys) = x @ sep @ join sep (y # ys)"

text \<open>\<open>s.split('\n')\<close>: the pieces between the separators; always at least one piece.\<close>

fun split_on :: "char \<Rightarrow> string \<Rightarrow> string list" where
  "split_on d [] = [[]]"
| "split_on d (c # cs) =
     (if c = d then [] # split_on d cs
      else (case split_on d cs of [] \<Rightarrow> [[c]] | l # ls \<Rightarrow> (c # l) # ls))"

subsection \<open>Regular expressions\<close>

text \<open>
  Every pattern of the sources is a sequence of literals, greedy repetitions \<open>\s+\<close>,
  \<open>\d+\<close>, \<open>\w+\<close> (captured or not), an optional literal (\<open>\n?\<close>) and the lazy \<open>.+?\<close>.
  The matcher backtracks as \<open>re\<close> does: a greedy repetition tries the longest run first,
  a lazy one the shortest.
\<close>

datatype cclass = Space | Digit | Word | Dot

fun in_class :: "cclass \<Rightarrow> char \<Rightarrow> bool" where
  "in_class Space c = is_space c"
| "in_class Digit c = is_digit c"
| "in_class Word c = is_word c"
| "in_class Dot c = (c \<noteq> NL)"

datatype rx_item = Lit string | Plus cclass | CapPlus cclass | OptLit string | LazyPlus cclass

fun first_some :: "('a \<Rightarrow> 'b option) \<Rightarrow> 'a list \<Rightarrow> 'b option" where
  "first_some f [] = None"
| "first_some f (x # xs) = (case f x of Some y \<Rightarrow> Some y | None \<Rightarrow> first_some f xs)"

definition run_length :: "cclass \<Rightarrow> string \<Rightarrow> nat" where
  "run_length c s = length (takeWhile (in_class c) s)"

text \<open>\<open>rx_match p s\<close> matches \<open>p\<close> at the start of \<open>s\<close>: the captured groups and the text
  left after the match.\<close>

fun rx_match :: "rx_item list \<Rightarrow> string \<Rightarrow> (string list \<times> string) option" where
  "rx_match [] s = Some ([], s)"
| "rx_match (Lit l # r) s = (if prefix l s then rx_match r (drop (length l) s) else None)"
| "rx_match (Plus c # r) s =
     first_some (\<lambda>n. rx_match r (drop n s)) (rev [1..<Suc (run_length c s)])"
| "rx_match (CapPlus c # r) s =
     first_some (\<lambda>n. map_option (\<lambda>(g, t). (take n s # g, t)) (rx_match r (drop n s)))
       (rev [1..<Suc (run_length c s)])"
| "rx_match (OptLit l # r) s =
     (if prefix l s
      then (case rx_match r (drop (length l) s) of Some m \<Rightarrow> Some m | None \<Rightarrow> rx_match r s)
      else rx_match r s)"
| "rx_match (LazyPlus c # r) s =
     first_some (\<lambda>n. rx_match r (drop n s)) [1..<Suc (run_length c s)]"

text \<open>A match object: where the match starts and ends, and \<open>match.groups()\<close>.\<close>

record rmatch =
  m_start :: nat
  m_end :: nat
  groups :: "string list"

text \<open>\<open>match.group(k)\<close> for \<open>k \<ge> 1\<close>; a group the pattern does not have raises.\<close>

definition group :: "rmatch \<Rightarrow> nat \<Rightarrow> py_error + string" where
  "group m k = (if 1 \<le> k \<and> k \<le> length (groups m) then Inr (groups m ! (k - 1)) else Inl IndexError)"

text \<open>\<open>re.search\<close>: the leftmost position at which the pattern matches.\<close>

fun rx_search_from :: "rx_item list \<Rightarrow> nat \<Rightarrow> string \<Rightarrow> rmatch option" where
  "rx_search_from p i [] =
     (case rx_match p [] of
        Some (g, t) \<Rightarrow> Some \<lparr>m_start = i, m_end = i, groups = g\<rparr>
      | None \<Rightarrow> None)"
| "rx_search_from p i (c # cs) =
     (case rx_match p (c # cs) of
        Some (g, t) \<Rightarrow> Some \<lparr>m_start = i, m_end = i + (Suc (length cs) - length t), groups = g\<rparr>
      | None \<Rightarrow> rx_search_from p (Suc i) cs)"

definition re_search :: "rx_item list \<Rightarrow> string \<Rightarrow> rmatch option" where
  "re_search p s = rx_search_from p 0 s"

text \<open>\<open>re.finditer\<close>: the matches from left to right, each search starting where the
  previous match ended (one character further after an empty match).\<close>

fun rx_finditer_from :: "rx_item list \<Rightarrow> nat \<Rightarrow> string \<Rightarrow> rmatch list" where
  "rx_finditer_from p i [] =
     (case rx_match p [] of
        Some (g, t) \<Rightarrow> [\<lparr>m_start = i, m_end = i, groups = g\<rparr>]
      | None \<Rightarrow> [])"
| "rx_finditer_from p i (c # cs) =
     (case rx_match p (c # cs) of
        Some (g, t) \<Rightarrow>
          (if length t < Suc (length cs)
           then \<lparr>m_start = i, m_end = i + (Suc (length cs) - length t), groups = g\<rparr>
                  # rx_finditer_from p (i + (Suc (length cs) - length t)) t
           else \<lparr>m_start = i, m_end = i, groups = g\<rparr> # rx_finditer_from p (Suc i) cs)
      | None \<Rightarrow> rx_finditer_from p (Suc i) cs)"

definition re_finditer :: "rx_item list \<Rightarrow> string \<Rightarrow> rmatch list" where
  "re_finditer p s = rx_finditer_from p 0 s"

text \<open>\<open>re.sub(p, '', s)\<close>: the text with every match removed.\<close>

fun re_sub_empty :: "rx_item list \<Rightarrow> string \<Rightarrow> string" where
  "re_sub_empty p [] = []"
| "re_sub_empty p (c # cs) =
     (case rx_match p (c # cs) of
        Some (g, t) \<Rightarrow>
          (if length t < Suc (length cs) then re_sub_empty p t else c # re_sub_empty p cs)
      | None \<Rightarrow> c # re_sub_empty p cs)"

section \<open>Interface extraction (\<open>utils/port_extractor.py\<close>)\<close>

definition sum_bind :: "'e + 'a \<Rightarrow> ('a \<Rightarrow> 'e + 'b) \<Rightarrow> 'e + 'b" where
  "sum_bind x f = (case x of Inl e \<Rightarrow> Inl e | Inr a \<Rightarrow> f a)"

fun sum_map :: "('a \<Rightarrow> 'e + 'b) \<Rightarrow> 'a list \<Rightarrow> 'e + 'b list" where
  "sum_map f [] = Inr []"
| "sum_map f (x # xs) = sum_bind (f x) (\<lambda>y. sum_bind (sum_map f xs) (\<lambda>ys. Inr (y # ys)))"

fun sum_fold :: "('s \<Rightarrow> 'a \<Rightarrow> 'e + 's) \<Rightarrow> 'a list \<Rightarrow> 's \<Rightarrow> 'e + 's" where
  "sum_fold f [] s = Inr s"
| "sum_fold f (x # xs) s = sum_bind (f s x) (sum_fold f xs)"

text \<open>The dictionary \<open>{"module_name": ..., "inputs": ..., "outputs": ...}\<close>; a port is the
  pair \<open>(name, width)\<close>, the width \<open>""\<close> for a single bit.\<close>

type_synonym port = "string \<times> string"

record ports =
  "module_name" :: string
  inputs :: "port list"
  outputs :: "port list"

definition module_rx :: "rx_item list" where
  "module_rx = [Lit ''module'', Plus Space, CapPlus Word]"

definition ranged_rx :: "string \<Rightarrow> string \<Rightarrow> rx_item list" where
  "ranged_rx dir kind =
     [Lit dir, Plus Space, Lit kind, Plus Space, Lit ''['', CapPlus Digit, Lit '':'', CapPlus Digit,
      Lit '']'', Plus Space, CapPlus Word]"

definition plain_rx :: "string \<Rightarrow> string \<Rightarrow> rx_item list" where
  "plain_rx dir kind = [Lit dir, Plus Space, Lit kind, Plus Space, CapPlus Word]"

definition input_patterns :: "rx_item list list" where
  "input_patterns =
     [ranged_rx ''input'' ''wire'', plain_rx ''input'' ''wire'',
      ranged_rx ''input'' ''reg'', plain_rx ''input'' ''reg'']"

definition output_patterns :: "rx_item list list" where
  "output_patterns =
     [ranged_rx ''output'' ''wire'', plain_rx ''output'' ''wire'',
      ranged_rx ''output'' ''reg'', plain_rx ''output'' ''reg'']"

text \<open>The body of the inner loop: the port a match contributes.\<close>

definition port_of_match :: "rmatch \<Rightarrow> py_error + port" where
  "port_of_match m =
     (if length (groups m) = 3
      then sum_bind (group m 3) (\<lambda>g3.
             if CHR '':'' \<notin> set g3
             then sum_bind (group m 1) (\<lambda>g1. sum_bind (group m 2) (\<lambda>g2.
                    Inr (g3, ''['' @ g1 @ '':'' @ g2 @ '']'')))
             else Inr (g3, []))
      else if length (groups m) = 1
      then sum_bind (group m 1) (\<lambda>g1. Inr (g1, []))
      else sum_bind (group m 3) (\<lambda>g3. Inr (g3, [])))"

text \<open>The two nested loops: pattern by pattern, and for each pattern its matches from
  left to right.\<close>

definition scan_ports :: "rx_item list list \<Rightarrow> string \<Rightarrow> py_error + port list" where
  "scan_ports pats content = sum_map port_of_match (concat (map (\<lambda>p. re_finditer p content) pats))"

text \<open>\<open>extract_dut_ports\<close>; the file is \<open>None\<close> when it does not exist, its text otherwise.\<close>

definition extract_dut_ports :: "string option \<Rightarrow> py_error + ports" where
  "extract_dut_ports dut_file =
     (case dut_file of
        None \<Rightarrow> Inr \<lparr>module_name = ''my_dut'', inputs = [], outputs = []\<rparr>
      | Some content \<Rightarrow>
          (let module_match = re_search module_rx content
           in sum_bind (case module_match of Some m \<Rightarrow> group m 1 | None \<Rightarrow> Inr ''my_dut'')
                (\<lambda>name. sum_bind (scan_ports input_patterns content)
                (\<lambda>ins. sum_bind (scan_ports output_patterns content)
                (\<lambda>outs. Inr \<lparr>module_name = name, inputs = ins, outputs = outs\<rparr>)))))"

section \<open>Feature classification (\<open>detect_port_features\<close>)\<close>

record features =
  has_clk :: bool
  has_rst :: bool
  has_multibit :: bool
  max_width :: int
  num_inputs :: nat
  num_outputs :: nat

text \<open>\<open>int(s)\<close> on a string of decimal digits.\<close>

definition py_int :: "string \<Rightarrow> int" where
  "py_int s = foldl (\<lambda>a c. 10 * a + (int (of_char c) - 48)) 0 s"

definition width_rx :: "rx_item list" where
  "width_rx = [Lit ''['', CapPlus Digit, Lit '':'']"

text \<open>The body of the first loop, over the input ports.\<close>

definition clock_step :: "features \<Rightarrow> port \<Rightarrow> features" where
  "clock_step f p =
     (let name = fst p;
          f1 = (if lower name \<in> set [''clk'', ''clock''] then f\<lparr>has_clk := True\<rparr> else f)
      in if lower name \<in> set [''rst'', ''reset''] then f1\<lparr>has_rst := True\<rparr> else f1)"

text \<open>The body of the second loop, over the input ports followed by the output ports.\<close>

definition width_step :: "features \<Rightarrow> port \<Rightarrow> py_error + features" where
  "width_step f p =
     (let width = snd p
      in if width \<noteq> []
         then (let f1 = f\<lparr>has_multibit := True\<rparr>
               in case re_search width_rx width of
                    Some m \<Rightarrow> sum_bind (group m 1) (\<lambda>g.
                      Inr (f1\<lparr>max_width := max (max_width f1) (py_int g + 1)\<rparr>))
                  | None \<Rightarrow> Inr f1)
         else Inr f)"

definition detect_port_features :: "ports \<Rightarrow> py_error + features" where
  "detect_port_features ps =
     (let f0 = \<lparr>has_clk = False, has_rst = False, has_multibit = False, max_width = 0,
                num_inputs = length (inputs ps), num_outputs = length (outputs ps)\<rparr>
      in sum_fold width_step (inputs ps @ outputs ps) (foldl clock_step f0 (inputs ps)))"


section \<open>The verification driver (\<open>rtl_runner.py\<close>)\<close>

text \<open>The dictionary a check returns.\<close>

record step_result =
  step :: string
  cmd :: string
  returncode :: int
  stdout :: string
  stderr :: string
  log_path :: string

text \<open>
  What a run of the driver does to the outside world, in order: a check method is
  entered, a process is spawned, a log file is written; and, for the refinement loop,
  \<open>generate_testbench\<close> is called for an iteration.
\<close>

datatype event = Generate nat | Check string | Spawn "string list" | WriteLog string

text \<open>
  The runner object with the part of the world it reads: the paths it was built with,
  whether the two files exist, and the external tool as a function from the command line
  to exit status, standard output and standard error.
\<close>

record runner =
  rtl_dir :: string
  logs_dir :: string
  dut_file :: string
  tb_file :: string
  dut_exists :: bool
  tb_exists :: bool
  subprocess :: "string list \<Rightarrow> int \<times> string \<times> string"

definition run_cmd :: "runner \<Rightarrow> string list \<Rightarrow> string \<Rightarrow> event list \<Rightarrow> step_result \<times> event list" where
  "run_cmd r c log_name tr =
     (case subprocess r c of (rc, out, err) \<Rightarrow>
        (let lp = logs_dir r @ ''/'' @ log_name @ ''.log''
         in (\<lparr>step = log_name, cmd = join '' '' c, returncode = rc, stdout = out, stderr = err,
              log_path = lp\<rparr>,
             tr @ [Spawn c, WriteLog lp])))"

definition missing_file :: "string \<Rightarrow> string \<Rightarrow> step_result" where
  "missing_file name msg =
     \<lparr>step = name, cmd = [], returncode = 1, stdout = [], stderr = msg, log_path = []\<rparr>"

definition compile_dut :: "runner \<Rightarrow> event list \<Rightarrow> step_result \<times> event list" where
  "compile_dut r tr0 =
     (let tr = tr0 @ [Check ''compile_dut'']
      in if \<not> dut_exists r
         then (missing_file ''compile_dut'' (''DUT file not found: '' @ dut_file r), tr)
         else run_cmd r [''verilator'', ''--lint-only'', dut_file r] ''compile_dut'' tr)"

definition elaborate_dut :: "runner \<Rightarrow> event list \<Rightarrow> step_result \<times> event list" where
  "elaborate_dut r tr0 =
     (let tr = tr0 @ [Check ''elaborate_dut'']
      in if \<not> dut_exists r
         then (missing_file ''elaborate_dut'' (''DUT file not found: '' @ dut_file r), tr)
         else run_cmd r [''verilator'', ''--cc'', dut_file r] ''elaborate_dut'' tr)"

definition compile_tb :: "runner \<Rightarrow> event list \<Rightarrow> step_result \<times> event list" where
  "compile_tb r tr0 =
     (let tr = tr0 @ [Check ''compile_tb'']
      in if \<not> tb_exists r
         then (missing_file ''compile_tb'' (''Testbench file not found: '' @ tb_file r), tr)
         else if \<not> dut_exists r
         then (missing_file ''compile_tb'' (''DUT file not found: '' @ dut_file r), tr)
         else run_cmd r
                [''verilator'', ''--lint-only'', ''--timing'', ''-I'' @ rtl_dir r, dut_file r, tb_file r]
                ''compile_tb'' tr)"

definition run_simulation :: "runner \<Rightarrow> event list \<Rightarrow> step_result \<times> event list" where
  "run_simulation r tr0 =
     (\<lparr>step = ''run_simulation'', cmd = ''(stub) no command run'', returncode = 0,
       stdout = ''Simulation step not fully implemented yet; this is a stub.'' @ [NL],
       stderr = [], log_path = []\<rparr>,
      tr0 @ [Check ''run_simulation''])"

text \<open>
  \<open>run_flow\<close>. The dictionary \<open>results\<close> keeps its keys in the order they were stored; every
  key is stored once, so storing a key appends it.
\<close>

type_synonym results = "(string \<times> step_result) list"

definition run_flow :: "runner \<Rightarrow> string \<Rightarrow> event list \<Rightarrow> (bool \<times> string \<times> results) \<times> event list" where
  "run_flow r mode tr0 =
     (case compile_dut r tr0 of (r1, tr1) \<Rightarrow>
      (let results1 = [(''compile_dut'', r1)]
       in if returncode r1 \<noteq> 0 then ((False, ''compile_dut'', results1), tr1)
          else if mode = ''compile_only''
          then (case compile_tb r tr1 of (r2, tr2) \<Rightarrow>
                 (let results2 = results1 @ [(''compile_tb'', r2)]
                  in if returncode r2 \<noteq> 0 then ((False, ''compile_tb'', results2), tr2)
                     else ((True, ''ok'', results2), tr2)))
          else (case elaborate_dut r tr1 of (r2, tr2) \<Rightarrow>
                 (let results2 = results1 @ [(''elaborate_dut'', r2)]
                  in if returncode r2 \<noteq> 0 then ((False, ''elaborate_dut'', results2), tr2)
                     else if mode = ''compile_elaborate''
                     then (case compile_tb r tr2 of (r3, tr3) \<Rightarrow>
                            (let results3 = results2 @ [(''compile_tb'', r3)]
                             in if returncode r3 \<noteq> 0 then ((False, ''compile_tb'', results3), tr3)
                                else ((True, ''ok'', results3), tr3)))
                     else (case compile_tb r tr2 of (r3, tr3) \<Rightarrow>
                            (let results3 = results2 @ [(''compile_tb'', r3)]
                             in if returncode r3 \<noteq> 0 then ((False, ''compile_tb'', results3), tr3)
                                else (case run_simulation r tr3 of (r4, tr4) \<Rightarrow>
                                       (let results4 = results3 @ [(''run_simulation'', r4)]
                                        in if returncode r4 \<noteq> 0
                                           then ((False, ''run_simulation'', results4), tr4)
                                           else ((True, ''ok'', results4), tr4)))))))))"

text \<open>
  The reading of the driver's contract: the checks a mode prescribes, what a check
  returns when it is run on its own, and the prescribed checks cut after the first one
  that exits with a status other than 0.
\<close>

definition checks_for :: "string \<Rightarrow> string list" where
  "checks_for mode =
     (if mode = ''compile_only'' then [''compile_dut'', ''compile_tb'']
      else if mode = ''compile_elaborate'' then [''compile_dut'', ''elaborate_dut'', ''compile_tb'']
      else [''compile_dut'', ''elaborate_dut'', ''compile_tb'', ''run_simulation''])"

definition check_result :: "runner \<Rightarrow> string \<Rightarrow> step_result" where
  "check_result r name =
     (if name = ''compile_dut'' then fst (compile_dut r [])
      else if name = ''elaborate_dut'' then fst (elaborate_dut r [])
      else if name = ''compile_tb'' then fst (compile_tb r [])
      else fst (run_simulation r []))"

fun fail_fast :: "runner \<Rightarrow> string list \<Rightarrow> string list" where
  "fail_fast r [] = []"
| "fail_fast r (c # cs) = (if returncode (check_result r c) \<noteq> 0 then [c] else c # fail_fast r cs)"

fun invoked :: "event list \<Rightarrow> string list" where
  "invoked [] = []"
| "invoked (Check c # es) = c # invoked es"
| "invoked (e # es) = invoked es"

section \<open>The artifact sanitizer (\<open>sanitize_verilog_code\<close>)\<close>

definition backticks :: string where
  "backticks = replicate 3 (CHR 0x60)"

text \<open>The three substitutions that remove the fences, in the order of the source.\<close>

definition strip_fences :: "string \<Rightarrow> string" where
  "strip_fences raw_code =
     (let code = re_sub_empty [Lit (backticks @ ''verilog''), OptLit [NL]] raw_code;
          code = re_sub_empty [Lit (backticks @ ''systemverilog''), OptLit [NL]] code
      in re_sub_empty [Lit backticks, OptLit [NL]] code)"

definition no_module_message :: "string \<Rightarrow> string" where
  "no_module_message raw_code =
     ''No valid Verilog module found in output.'' @ [NL] @ ''Output preview:'' @ [NL]
       @ take 200 raw_code"

definition sanitize_verilog_code :: "string \<Rightarrow> py_error + string" where
  "sanitize_verilog_code raw_code =
     (let code = strip_fences raw_code;
          start = str_find code ''module'';
          stop = str_rfind code ''endmodule''
      in if start = - 1 \<or> stop = - 1
         then Inl (RuntimeError (no_module_message raw_code))
         else (let clean_code = slice code start (stop + int (length ''endmodule''))
               in Inr (if \<not> suffix [NL] clean_code then clean_code @ [NL] else clean_code)))"

section \<open>Error classification and feedback (\<open>templates/error_fixes.py\<close>)\<close>

text \<open>The box-drawing characters and the arrow of the templates, as UTF-8 bytes.\<close>

definition box_top :: string where
  "box_top = [CHR 0xE2, CHR 0x95, CHR 0x94] @ concat (replicate 64 [CHR 0xE2, CHR 0x95, CHR 0x90])
     @ [CHR 0xE2, CHR 0x95, CHR 0x97]"

definition box_bottom :: string where
  "box_bottom = [CHR 0xE2, CHR 0x95, CHR 0x9A] @ concat (replicate 64 [CHR 0xE2, CHR 0x95, CHR 0x90])
     @ [CHR 0xE2, CHR 0x95, CHR 0x9D]"

definition box_bar :: string where
  "box_bar = [CHR 0xE2, CHR 0x95, CHR 0x91]"

definition arrow :: string where
  "arrow = [CHR 0xE2, CHR 0x86, CHR 0x92]"

text \<open>The templates of \<open>ERROR_FIX_TEMPLATES\<close>, line by line.\<close>

definition tpl_PINMISSING :: string where
  "tpl_PINMISSING = join [NL]
     [[],
      box_top,
      box_bar @ '' CRITICAL ERROR: Missing Port Connection                       '' @ box_bar,
      box_bottom,
      [],
      ''You forgot to connect port '{port}'.'',
      [],
      ''REQUIRED FIX:'',
      ''In your DUT instantiation, you MUST have this line:'',
      ''    .{port}({port})'',
      [],
      ''Complete instantiation template (COPY THIS):'',
      ''{module_name} dut ('',
      ''{port_connections}'',
      '');'',
      [],
      ''Every line above MUST appear in your testbench.'',
      []]"

definition tpl_WIDTHTRUNC :: string where
  "tpl_WIDTHTRUNC = join [NL]
     [[],
      box_top,
      box_bar @ '' CRITICAL ERROR: Bit Width Mismatch                            '' @ box_bar,
      box_bottom,
      [],
      ''Wrong bit width for port '{port}'.'',
      [],
      ''Port expects: {expected_width}'',
      ''You provided: {actual_width}'',
      [],
      ''REQUIRED FIX:'',
      ''Declare the signal correctly:'',
      ''    {correct_declaration}'',
      [],
      ''Examples:'',
      ''  Single bit:  reg signal;'',
      ''  8-bit:       reg [7:0] signal;'',
      ''  4-bit:       reg [3:0] signal;'',
      []]"

definition tpl_WIDTHEXPAND :: string where
  "tpl_WIDTHEXPAND = join [NL]
     [[],
      box_top,
      box_bar @ '' CRITICAL ERROR: Bit Width Expansion                           '' @ box_bar,
      box_bottom,
      [],
      ''Signal is too narrow for the port.'',
      [],
      ''REQUIRED FIX:'',
      ''Match the exact bit width from DUT specification.'',
      ''Check your signal declarations.'',
      []]"

definition tpl_SIGNAL_UNDECLARED :: string where
  "tpl_SIGNAL_UNDECLARED = join [NL]
     [[],
      box_top,
      box_bar @ '' CRITICAL ERROR: Undeclared Signal                             '' @ box_bar,
      box_bottom,
      [],
      ''Signal '{signal}' used but not declared.'',
      [],
      ''REQUIRED FIX:'',
      ''Add this declaration BEFORE using the signal:'',
      ''    {declaration}'',
      [],
      ''All signals must be declared in the testbench before use.'',
      []]"

definition tpl_WIRE_REG_MISMATCH :: string where
  "tpl_WIRE_REG_MISMATCH = join [NL]
     [[],
      box_top,
      box_bar @ '' CRITICAL ERROR: Wire/Reg Type Mismatch                        '' @ box_bar,
      box_bottom,
      [],
      ''RULE: '',
      ''  - DUT INPUTS  '' @ arrow @ '' declare as 'reg' in testbench'',
      ''  - DUT OUTPUTS '' @ arrow @ '' declare as 'wire' in testbench'',
      [],
      ''FIX YOUR DECLARATIONS:'',
      ''{corrected_declarations}'',
      []]"

definition tpl_MODULE_NOT_FOUND :: string where
  "tpl_MODULE_NOT_FOUND = join [NL]
     [[],
      box_top,
      box_bar @ '' CRITICAL ERROR: Module Not Found                              '' @ box_bar,
      box_bottom,
      [],
      ''Verilator cannot find module '{module}'.'',
      [],
      ''COMMON CAUSES:'',
      ''1. Typo in module name'',
      ''2. Module name doesn't match file'',
      [],
      ''REQUIRED FIX:'',
      ''Use the EXACT module name from DUT: {correct_module_name}'',
      []]"

definition tpl_SYNTAX_ERROR :: string where
  "tpl_SYNTAX_ERROR = join [NL]
     [[],
      box_top,
      box_bar @ '' ERROR: Verilog Syntax Error                                   '' @ box_bar,
      box_bottom,
      [],
      ''General syntax error detected.'',
      [],
      ''COMMON ISSUES:'',
      ''- Missing semicolon'',
      ''- Unmatched begin/end'',
      ''- Wrong keyword spelling'',
      [],
      ''Check your code structure carefully.'',
      []]"

definition tpl_TIMING_ERROR :: string where
  "tpl_TIMING_ERROR = join [NL]
     [[],
      box_top,
      box_bar @ '' ERROR: Timing Construct Not Supported                         '' @ box_bar,
      box_bottom,
      [],
      ''Verilator requires --timing flag for delays.'',
      [],
      ''This is already enabled. Check your delay syntax:'',
      ''  Correct:   #10 signal = 1;'',
      ''  Incorrect: signal = #10 1;'',
      []]"

definition ERROR_FIX_TEMPLATES :: "(string \<times> string) list" where
  "ERROR_FIX_TEMPLATES =
     [(''PINMISSING'', tpl_PINMISSING),
      (''WIDTHTRUNC'', tpl_WIDTHTRUNC),
      (''WIDTHEXPAND'', tpl_WIDTHEXPAND),
      (''SIGNAL_UNDECLARED'', tpl_SIGNAL_UNDECLARED),
      (''WIRE_REG_MISMATCH'', tpl_WIRE_REG_MISMATCH),
      (''MODULE_NOT_FOUND'', tpl_MODULE_NOT_FOUND),
      (''SYNTAX_ERROR'', tpl_SYNTAX_ERROR),
      (''TIMING_ERROR'', tpl_TIMING_ERROR)]"

text \<open>
  \<open>template.format(**kwargs)\<close> for templates whose fields are plain names in braces (the
  templates above have no other use of braces): \<open>None\<close> when a field has no value among
  the keyword arguments, where Python raises \<open>KeyError\<close>.
\<close>

fun py_format :: "string \<Rightarrow> (string \<times> string) list \<Rightarrow> string option" where
  "py_format [] kw = Some []"
| "py_format (c # cs) kw =
     (if c = CHR ''{''
      then (let key = takeWhile (\<lambda>x. x \<noteq> CHR ''}'') cs
            in case map_of kw key of
                 None \<Rightarrow> None
               | Some v \<Rightarrow> map_option (\<lambda>r. v @ r) (py_format (drop (Suc (length key)) cs) kw))
      else map_option (\<lambda>r. c # r) (py_format cs kw))"

definition get_fix_for_error_type :: "string \<Rightarrow> (string \<times> string) list \<Rightarrow> string" where
  "get_fix_for_error_type error_type kwargs =
     (let template = (case map_of ERROR_FIX_TEMPLATES error_type of
                        Some t \<Rightarrow> t | None \<Rightarrow> tpl_SYNTAX_ERROR)
      in case py_format template kwargs of Some s \<Rightarrow> s | None \<Rightarrow> template)"

definition pin_rx :: "rx_item list" where
  "pin_rx = [Lit (''missing pin: '' @ [CHR 0x27]), CapPlus Word, Lit [CHR 0x27]]"

fun pin_names :: "string list \<Rightarrow> py_error + string list" where
  "pin_names [] = Inr []"
| "pin_names (l # ls) =
     (case re_search pin_rx l of
        Some m \<Rightarrow> sum_bind (group m 1) (\<lambda>g. sum_bind (pin_names ls) (\<lambda>r. Inr (g # r)))
      | None \<Rightarrow> pin_names ls)"

definition parse_pinmissing_error :: "string \<Rightarrow> py_error + string list" where
  "parse_pinmissing_error error_text = pin_names (split_on NL error_text)"

text \<open>The dictionary \<open>info\<close> of \<open>parse_width_error\<close>: each key is present or not.\<close>

record width_info =
  info_port :: "string option"
  expected_width :: "string option"
  actual_width :: "string option"

definition port_rx :: "rx_item list" where
  "port_rx = [Lit (''port '' @ [CHR 0x27]), CapPlus Word, Lit [CHR 0x27]]"

definition bits_rx :: "rx_item list" where
  "bits_rx = [CapPlus Digit, Lit '' bits'', LazyPlus Dot, CapPlus Digit, Lit '' bits'']"

definition parse_width_error :: "string \<Rightarrow> py_error + width_info" where
  "parse_width_error error_text =
     sum_bind (case re_search port_rx error_text of
                 Some m \<Rightarrow> sum_bind (group m 1) (\<lambda>g. Inr (Some g))
               | None \<Rightarrow> Inr None)
       (\<lambda>p. case re_search bits_rx error_text of
               Some m \<Rightarrow> sum_bind (group m 1) (\<lambda>e. sum_bind (group m 2) (\<lambda>a.
                 Inr \<lparr>info_port = p, expected_width = Some e, actual_width = Some a\<rparr>))
             | None \<Rightarrow> Inr \<lparr>info_port = p, expected_width = None, actual_width = None\<rparr>)"

text \<open>The block of \<open>generate_targeted_error_prompt\<close> that handles \<open>PINMISSING\<close>: the fixes
  it appends.\<close>

definition pin_fixes :: "string \<Rightarrow> ports \<Rightarrow> py_error + string list" where
  "pin_fixes error_summary ps =
     (if str_contains ''PINMISSING'' error_summary
      then sum_bind (parse_pinmissing_error error_summary) (\<lambda>missing_ports.
             if missing_ports \<noteq> []
             then (let all_ports = inputs ps @ outputs ps;
                       port_conns = map (\<lambda>(name, width). ''        .'' @ name @ ''('' @ name @ '')'')
                                      all_ports
                   in Inr [get_fix_for_error_type ''PINMISSING''
                             [(''port'', join '', '' missing_ports),
                              (''module_name'', module_name ps),
                              (''port_connections'', join ('','' @ [NL]) port_conns)]])
             else Inr [])
      else Inr [])"

text \<open>The block that handles the width errors. The loop over the ports stops at the first
  port of that name, which is what \<^const>\<open>map_of\<close> returns.\<close>

definition width_fixes :: "string \<Rightarrow> ports \<Rightarrow> py_error + string list" where
  "width_fixes error_summary ps =
     (if str_contains ''WIDTHTRUNC'' error_summary \<or> str_contains ''WIDTHEXPAND'' error_summary
      then sum_bind (parse_width_error error_summary) (\<lambda>info.
             case info_port info of
               Some port_name \<Rightarrow>
                 (let port_width = (case map_of (inputs ps @ outputs ps) port_name of
                                      Some width \<Rightarrow> width | None \<Rightarrow> []);
                      correct_decl = (if port_width \<noteq> []
                                      then ''reg '' @ port_width @ '' '' @ port_name @ '';''
                                      else ''reg '' @ port_name @ '';'')
                  in Inr [get_fix_for_error_type ''WIDTHTRUNC''
                            [(''port'', port_name),
                             (''expected_width'',
                                case expected_width info of Some e \<Rightarrow> e | None \<Rightarrow> ''N bits''),
                             (''actual_width'',
                                case actual_width info of Some a \<Rightarrow> a | None \<Rightarrow> ''M bits''),
                             (''correct_declaration'', correct_decl)]])
             | None \<Rightarrow> Inr [tpl_WIDTHTRUNC])
      else Inr [])"

definition module_fixes :: "string \<Rightarrow> ports \<Rightarrow> string list" where
  "module_fixes error_summary ps =
     (if str_contains ''Cannot find'' error_summary \<and> str_contains ''module'' (lower error_summary)
      then [get_fix_for_error_type ''MODULE_NOT_FOUND''
              [(''module'', ''<module>''), (''correct_module_name'', module_name ps)]]
      else [])"

definition generate_targeted_error_prompt :: "string \<Rightarrow> ports \<Rightarrow> py_error + string" where
  "generate_targeted_error_prompt error_summary ps =
     sum_bind (pin_fixes error_summary ps) (\<lambda>f1.
     sum_bind (width_fixes error_summary ps) (\<lambda>f2.
       (let fixes = f1 @ f2 @ module_fixes error_summary ps;
            fixes = (if fixes = [] \<and> (str_contains ''Error'' error_summary
                                        \<or> str_contains ''error'' error_summary)
                     then [tpl_SYNTAX_ERROR] else fixes)
        in Inr (if fixes \<noteq> [] then join [NL, NL] fixes
                else ''Review and fix the errors shown above.''))))"

section \<open>The refinement loop (\<open>test_simulation_agent.py\<close>)\<close>

text \<open>\<open>str.strip()\<close>.\<close>

definition strip :: "string \<Rightarrow> string" where
  "strip s = rev (dropWhile is_space (rev (dropWhile is_space s)))"

definition extract_error_summary :: "results \<Rightarrow> string \<Rightarrow> string" where
  "extract_error_summary results failing_step =
     (case map_of results failing_step of
        None \<Rightarrow> ''Unknown error''
      | Some r \<Rightarrow>
          (let errors =
                 map strip
                   (filter (\<lambda>line. list_ex (\<lambda>keyword. str_contains keyword line)
                                      [''Error'', ''Warning'', ''PINMISSING'', ''WIDTH'']
                                  \<and> \<not> str_contains ''verilator lint'' (lower line))
                      (split_on NL (stderr r)))
           in if errors \<noteq> [] then join [NL] (take 10 errors) else take 500 (stderr r)))"

text \<open>The dictionary \<open>previous_error\<close> that carries a failed verification into the next
  iteration.\<close>

record previous_error =
  pe_failing_step :: string
  pe_results :: results
  pe_analysis :: string

text \<open>
  What the language model is asked. The prompt texts are fixed templates filled with
  values computed from the request and from the values below, so the model's answer is
  taken as a function of the iteration and of these values: the first attempt is built
  from the ports and their features, a refined attempt from the failing step, the error
  summary, the targeted fixes and the ports.
\<close>

datatype prompt =
    FirstAttempt ports features
  | RefinedAttempt string string string ports

text \<open>
  The world of one run: the text of the DUT file (\<open>None\<close> when the file does not exist),
  the language model (it answers with a text or raises), the external tool (its answer
  may depend on the iteration and on the testbench file it finds), and the runner.
\<close>

record env =
  env_dut :: "string option"
  env_llm :: "nat \<Rightarrow> prompt \<Rightarrow> py_error + string"
  env_tool :: "nat \<Rightarrow> string \<Rightarrow> string list \<Rightarrow> int \<times> string \<times> string"
  env_runner :: runner

text \<open>The part of \<open>generation_log\<close> that later steps read.\<close>

record generation_log =
  g_iteration :: nat
  g_prompt :: prompt
  llm_raw_output :: string
  testbench_code :: string

text \<open>\<open>generate_testbench\<close>: an exception raised anywhere in it is the value \<open>Inl\<close>.\<close>

definition build_prompt :: "ports \<Rightarrow> nat \<Rightarrow> previous_error option \<Rightarrow> py_error + prompt" where
  "build_prompt ps iteration previous =
     (case previous of
        None \<Rightarrow> sum_bind (detect_port_features ps) (\<lambda>f. Inr (FirstAttempt ps f))
      | Some pe \<Rightarrow>
          if iteration = 0
          then sum_bind (detect_port_features ps) (\<lambda>f. Inr (FirstAttempt ps f))
          else (let error_summary = extract_error_summary (pe_results pe) (pe_failing_step pe)
                in sum_bind (generate_targeted_error_prompt error_summary ps) (\<lambda>targeted_fixes.
                     Inr (RefinedAttempt (pe_failing_step pe) error_summary targeted_fixes ps))))"

definition generate_testbench :: "env \<Rightarrow> nat \<Rightarrow> previous_error option \<Rightarrow> py_error + generation_log" where
  "generate_testbench e iteration previous =
     sum_bind (extract_dut_ports (env_dut e)) (\<lambda>ps.
     sum_bind (build_prompt ps iteration previous) (\<lambda>p.
     sum_bind (env_llm e iteration p) (\<lambda>raw_tb.
     sum_bind (sanitize_verilog_code raw_tb) (\<lambda>tb_code.
       Inr \<lparr>g_iteration = iteration, g_prompt = p, llm_raw_output = raw_tb,
            testbench_code = tb_code\<rparr>))))"

text \<open>The text \<open>str(e)\<close> of an exception.\<close>

fun error_text :: "py_error \<Rightarrow> string" where
  "error_text (RuntimeError msg) = msg"
| "error_text (ExternalError msg) = msg"
| "error_text IndexError = ''no such group''"
| "error_text UnboundLocalError = ''local variable referenced before assignment''"

text \<open>\<open>analyze_with_llm\<close>: the analysis text.\<close>

definition check_mark :: string where
  "check_mark = [CHR 0xE2, CHR 0x9C, CHR 0x85]"

definition category_line :: "string \<times> step_result \<Rightarrow> string" where
  "category_line sr =
     (if str_contains ''PINMISSING'' (stderr (snd sr)) then ''- Missing port connections''
      else if str_contains ''WIDTH'' (stderr (snd sr)) then ''- Bit width mismatch''
      else if str_contains ''Cannot find'' (stderr (snd sr)) then ''- Module or signal not found''
      else ''- '' @ fst sr @ '' failed'')"

definition analysis_text :: "results \<Rightarrow> string" where
  "analysis_text results =
     (if list_all (\<lambda>sr. returncode (snd sr) = 0) results
      then check_mark @ '' All verification steps passed successfully.''
      else (let failed = filter (\<lambda>sr. returncode (snd sr) \<noteq> 0) results
            in if failed = [] then ''Verification completed.''
               else ''Failed at '' @ join '', '' (map fst failed) @ '':'' @ [NL]
                      @ join [NL] (map category_line failed)))"

text \<open>The runner as the loop finds it after \<open>generate_testbench\<close> has written the testbench.\<close>

definition runner_at :: "env \<Rightarrow> nat \<Rightarrow> string \<Rightarrow> runner" where
  "runner_at e iteration tb_code =
     (env_runner e)\<lparr>dut_exists := (env_dut e \<noteq> None), tb_exists := True,
                     subprocess := env_tool e iteration tb_code\<rparr>"

record iteration_log =
  iteration_number :: nat
  generation :: "generation_log option"
  generation_error :: "string option"
  simulation :: "(bool \<times> string \<times> results) option"
  analysis :: "string option"
  will_retry :: "bool option"

record run_log =
  iterations :: "iteration_log list"
  final_status :: string
  success :: bool
  iterations_used :: int
  final_analysis :: "string option"

text \<open>What a run leaves: the returned tuple, the log saved to memory, and the events.\<close>

record outcome =
  returned :: "bool \<times> string \<times> results \<times> string \<times> int"
  saved :: run_log
  events :: "event list"

text \<open>The variables the loop carries from one iteration to the next; \<open>failing_step\<close> and
  \<open>results\<close> are unbound until an iteration has run the flow.\<close>

record loop_state =
  previous :: "previous_error option"
  last_flow :: "(string \<times> results) option"
  analysis_so_far :: string
  logs :: "iteration_log list"
  trace :: "event list"

text \<open>The \<open>for\<close> loop over \<open>range(max_iterations)\<close>, as a recursion over the iterations that
  are left, and the code after the loop.\<close>

fun refinement_loop :: "env \<Rightarrow> string \<Rightarrow> int \<Rightarrow> nat list \<Rightarrow> loop_state \<Rightarrow> py_error + outcome" where
  "refinement_loop e mode max_iterations [] st =
     (case last_flow st of
        None \<Rightarrow> Inl UnboundLocalError
      | Some (failing_step, results) \<Rightarrow>
          Inr \<lparr>returned = (False, failing_step, results, analysis_so_far st, max_iterations),
               saved = \<lparr>iterations = logs st, final_status = ''max_iterations_reached'',
                         success = False, iterations_used = max_iterations,
                         final_analysis = Some (analysis_so_far st)\<rparr>,
               events = trace st\<rparr>)"
| "refinement_loop e mode max_iterations (iteration # rest) st =
     (let tr1 = trace st @ [Generate iteration]
      in case generate_testbench e iteration (previous st) of
           Inl exn \<Rightarrow>
             Inr \<lparr>returned = (False, ''testbench_generation'', [], error_text exn, int iteration + 1),
                  saved = \<lparr>iterations = logs st @
                              [\<lparr>iteration_number = iteration, generation = None,
                                generation_error = Some (error_text exn), simulation = None,
                                analysis = None, will_retry = None\<rparr>],
                            final_status = ''generation_failed'', success = False,
                            iterations_used = int iteration + 1, final_analysis = None\<rparr>,
                  events = tr1\<rparr>
         | Inr generation_log \<Rightarrow>
             (case run_flow (runner_at e iteration (testbench_code generation_log)) mode tr1 of
                ((ok, failing_step, results), tr2) \<Rightarrow>
                  (let text = analysis_text results;
                       entry = \<lparr>iteration_number = iteration, generation = Some generation_log,
                                generation_error = None,
                                simulation = Some (ok, failing_step, results),
                                analysis = Some text, will_retry = None\<rparr>
                   in if ok
                      then Inr \<lparr>returned = (True, ''ok'', results, text, int iteration + 1),
                                saved = \<lparr>iterations = logs st @ [entry], final_status = ''success'',
                                          success = True, iterations_used = int iteration + 1,
                                          final_analysis = Some text\<rparr>,
                                events = tr2\<rparr>
                      else (let retry = (int iteration < max_iterations - 1)
                            in refinement_loop e mode max_iterations rest
                                 \<lparr>previous =
                                    (if retry
                                     then Some \<lparr>pe_failing_step = failing_step, pe_results = results,
                                                pe_analysis = text\<rparr>
                                     else previous st),
                                  last_flow = Some (failing_step, results),
                                  analysis_so_far = text,
                                  logs = logs st @ [entry\<lparr>will_retry := Some retry\<rparr>],
                                  trace = tr2\<rparr>))))"

definition run_with_refinement :: "env \<Rightarrow> string \<Rightarrow> int \<Rightarrow> py_error + outcome" where
  "run_with_refinement e mode max_iterations =
     refinement_loop e mode max_iterations [0..<nat max_iterations]
       \<lparr>previous = None, last_flow = None, analysis_so_far = [], logs = [], trace = []\<rparr>"

text \<open>The iterations for which \<open>generate_testbench\<close> was called, in order.\<close>

fun generated :: "event list \<Rightarrow> nat list" where
  "generated [] = []"
| "generated (Generate i # es) = i # generated es"
| "generated (e # es) = generated es"

section \<open>Auxiliary notions for the proofs\<close>

text \<open>The number of capturing groups of a pattern.\<close>

fun ncaps :: "rx_item list \<Rightarrow> nat" where
  "ncaps [] = 0"
| "ncaps (CapPlus c # r) = Suc (ncaps r)"
| "ncaps (x # r) = ncaps r"

text \<open>A runner whose tool fails the elaboration and passes everything else.\<close>

definition demo_runner :: runner where
  "demo_runner =
     \<lparr>rtl_dir = ''rtl'', logs_dir = ''logs'', dut_file = ''rtl/my_dut.v'',
      tb_file = ''tb/generated_tb.sv'', dut_exists = True, tb_exists = True,
      subprocess = (\<lambda>c. if c = [''verilator'', ''--cc'', ''rtl/my_dut.v'']
                         then (1, [], ''%Error: elaboration failed'') else (0, [], []))\<rparr>"


text \<open>The fields of a template, and whether each opening brace has its closing brace.\<close>

fun tpl_fields :: "string \<Rightarrow> string list" where
  "tpl_fields [] = []"
| "tpl_fields (c # cs) =
     (if c = CHR ''{''
      then (let key = takeWhile (\<lambda>x. x \<noteq> CHR ''}'') cs
            in key # tpl_fields (drop (Suc (length key)) cs))
      else tpl_fields cs)"

fun closed_tpl :: "string \<Rightarrow> bool" where
  "closed_tpl [] = True"
| "closed_tpl (c # cs) =
     (if c = CHR ''{''
      then CHR ''}'' \<in> set cs \<and> closed_tpl (drop (Suc (length (takeWhile (\<lambda>x. x \<noteq> CHR ''}'') cs))) cs)
      else closed_tpl cs)"

text \<open>A text cut at the first occurrence of a piece: what stands before it and after it.\<close>

definition before :: "string \<Rightarrow> string \<Rightarrow> string" where
  "before piece t = take (nat (str_find t piece)) t"

definition after :: "string \<Rightarrow> string \<Rightarrow> string" where
  "after piece t = drop (nat (str_find t piece) + length piece) t"

text \<open>A descriptor and two diagnostics for the examples.\<close>

definition demo_ports :: ports where
  "demo_ports =
     \<lparr>module_name = ''m'', inputs = [(''clk'', []), (''data'', ''[7:0]'')],
      outputs = [(''q'', ''[3:0]'')]\<rparr>"

definition demo_width_diag :: string where
  "demo_width_diag = ''%Warning-WIDTHTRUNC: tb.sv:12: port 'data' expects 4 bits but got 16 bits''"

definition demo_both_diag :: string where
  "demo_both_diag =
     ''%Error-PINMISSING: tb.sv:9: Cell has missing pin: 'clk' '' @ [NL]
       @ ''%Warning-WIDTHEXPAND: tb.sv:12: port 'q' expects 4 bits but got 1 bits''"

section \<open>Facts about text\<close>

lemma str_contains_iff: "str_contains sub s \<longleftrightarrow> (\<exists>a b. s = a @ sub @ b)"
proof (induction s)
  case Nil
  then show ?case by auto
next
  case (Cons c cs)
  show ?case
  proof
    assume "str_contains sub (c # cs)"
    then consider "prefix sub (c # cs)" | "str_contains sub cs" by auto
    then show "\<exists>a b. c # cs = a @ sub @ b"
    proof cases
      case 1
      then obtain b where "c # cs = sub @ b" by (auto simp: prefix_def)
      then have "c # cs = [] @ sub @ b" by simp
      then show ?thesis by blast
    next
      case 2
      with Cons.IH obtain a b where "cs = a @ sub @ b" by blast
      then have "c # cs = (c # a) @ sub @ b" by simp
      then show ?thesis by blast
    qed
  next
    assume "\<exists>a b. c # cs = a @ sub @ b"
    then obtain a b where ab: "c # cs = a @ sub @ b" by blast
    show "str_contains sub (c # cs)"
    proof (cases a)
      case Nil
      with ab have "prefix sub (c # cs)" by (simp add: prefix_def)
      then show ?thesis by simp
    next
      case (Cons x a')
      with ab have "cs = a' @ sub @ b" by simp
      with Cons.IH show ?thesis by auto
    qed
  qed
qed

lemma str_contains_appendI1: "str_contains sub s \<Longrightarrow> str_contains sub (s @ t)"
  unfolding str_contains_iff by (metis append.assoc)

lemma str_contains_appendI2: "str_contains sub t \<Longrightarrow> str_contains sub (s @ t)"
  unfolding str_contains_iff by (metis append.assoc)


lemma str_contains_trans: "str_contains a b \<Longrightarrow> str_contains b c \<Longrightarrow> str_contains a c"
  unfolding str_contains_iff by (metis append.assoc)

lemma str_contains_join: "x \<in> set xs \<Longrightarrow> str_contains x (join sep xs)"
proof (induction sep xs rule: join.induct)
  case (1 sep)
  then show ?case by simp
next
  case (2 sep y)
  then show ?case by (auto simp: str_contains_iff intro: exI [of _ "[]"])
next
  case (3 sep y z zs)
  from 3(2) consider "x = y" | "x \<in> set (z # zs)" by auto
  then show ?case
  proof cases
    case 1
    have "y @ sep @ join sep (z # zs) = [] @ y @ (sep @ join sep (z # zs))" by simp
    with 1 show ?thesis unfolding str_contains_iff join.simps by blast
  next
    case 2
    with 3(1) have "str_contains x (join sep (z # zs))" by simp
    then have "str_contains x (y @ sep @ join sep (z # zs))"
      by (intro str_contains_appendI2)
    then show ?thesis by simp
  qed
qed


section \<open>Facts about the matcher\<close>

lemma first_some_SomeD: "first_some f xs = Some y \<Longrightarrow> \<exists>x\<in>set xs. f x = Some y"
  by (induction xs) (auto split: option.splits)

lemma rx_match_groups: "rx_match p s = Some (g, t) \<Longrightarrow> length g = ncaps p"
proof (induction p arbitrary: s g t)
  case Nil
  then show ?case by simp
next
  case (Cons x r)
  show ?case
  proof (cases x)
    case (Lit l)
    with Cons show ?thesis by (auto split: if_splits)
  next
    case (Plus c)
    with Cons.prems obtain n where "rx_match r (drop n s) = Some (g, t)"
      by (auto dest!: first_some_SomeD)
    with Cons.IH Plus show ?thesis by simp
  next
    case (CapPlus c)
    with Cons.prems obtain n g' where "rx_match r (drop n s) = Some (g', t)" "g = take n s # g'"
      by (auto dest!: first_some_SomeD)
    with Cons.IH CapPlus show ?thesis by auto
  next
    case (OptLit l)
    with Cons show ?thesis by (auto split: if_splits option.splits)
  next
    case (LazyPlus c)
    with Cons.prems obtain n where "rx_match r (drop n s) = Some (g, t)"
      by (auto dest!: first_some_SomeD)
    with Cons.IH LazyPlus show ?thesis by simp
  qed
qed

lemma rx_search_from_groups:
  "rx_search_from p i s = Some m \<Longrightarrow> length (groups m) = ncaps p"
  by (induction s arbitrary: i) (auto split: option.splits dest: rx_match_groups)

lemma re_search_groups: "re_search p s = Some m \<Longrightarrow> length (groups m) = ncaps p"
  unfolding re_search_def by (rule rx_search_from_groups)

lemma rx_finditer_from_groups:
  "\<forall>m\<in>set (rx_finditer_from p i s). length (groups m) = ncaps p"
proof (induction p i s rule: rx_finditer_from.induct)
  case (1 p i)
  show ?case
    by (cases "rx_match p []") (auto dest: rx_match_groups)
next
  case (2 p i c cs)
  show ?case
  proof (cases "rx_match p (c # cs)")
    case None
    with 2 show ?thesis by simp
  next
    case (Some gt)
    obtain g t where gt: "gt = (g, t)" by (cases gt)
    have len: "length g = ncaps p" using Some gt rx_match_groups by blast
    show ?thesis
    proof (cases "length t < Suc (length cs)")
      case True
      with 2 Some gt len show ?thesis by auto
    next
      case False
      with 2 Some gt len show ?thesis by auto
    qed
  qed
qed

lemma re_finditer_groups: "m \<in> set (re_finditer p s) \<Longrightarrow> length (groups m) = ncaps p"
  unfolding re_finditer_def using rx_finditer_from_groups by blast


section \<open>Properties of the feature classifier\<close>

text \<open>
  Claim C7. For the interface extracted from the description
  \<open>module m(input wire clk, input wire rst, input wire [7:0] data, output reg [7:0] out)\<close>
  the feature classifier reports the clock flag, the reset flag and the multibit flag as
  true and the maximal width 8 (the high index 7 plus one); it counts three inputs and
  one output.
\<close>

theorem scenario_features:
  "sum_bind
     (extract_dut_ports
        (Some ''module m(input wire clk, input wire rst, input wire [7:0] data, output reg [7:0] out)''))
     detect_port_features
   = Inr \<lparr>has_clk = True, has_rst = True, has_multibit = True, max_width = 8,
           num_inputs = 3, num_outputs = 1\<rparr>"
  by code_simp

lemma width_step_ok:
  "\<exists>f'. width_step f p = Inr f' \<and> has_clk f' = has_clk f \<and> has_rst f' = has_rst f"
proof (cases "snd p = []")
  case True
  then show ?thesis by (simp add: width_step_def)
next
  case False
  show ?thesis
  proof (cases "re_search width_rx (snd p)")
    case None
    with False show ?thesis by (simp add: width_step_def Let_def)
  next
    case (Some m)
    then have "length (groups m) = 1"
      by (auto dest: re_search_groups simp: width_rx_def)
    with False Some show ?thesis
      by (simp add: width_step_def Let_def group_def sum_bind_def)
  qed
qed

lemma sum_fold_width_step_ok:
  "\<exists>f'. sum_fold width_step ps f = Inr f' \<and> has_clk f' = has_clk f \<and> has_rst f' = has_rst f"
proof (induction ps arbitrary: f)
  case Nil
  then show ?case by simp
next
  case (Cons p ps)
  obtain f1 where f1: "width_step f p = Inr f1" "has_clk f1 = has_clk f" "has_rst f1 = has_rst f"
    using width_step_ok by blast
  from Cons.IH [of f1] f1 show ?case by (auto simp: sum_bind_def)
qed

lemma foldl_clock_step_clk:
  "has_clk (foldl clock_step f ps) =
     (has_clk f \<or> (\<exists>p\<in>set ps. lower (fst p) = ''clk'' \<or> lower (fst p) = ''clock''))"
  by (induction ps arbitrary: f) (auto simp: clock_step_def Let_def)

lemma foldl_clock_step_rst:
  "has_rst (foldl clock_step f ps) =
     (has_rst f \<or> (\<exists>p\<in>set ps. lower (fst p) = ''rst'' \<or> lower (fst p) = ''reset''))"
  by (induction ps arbitrary: f) (auto simp: clock_step_def Let_def)

text \<open>
  Claim C10. Clock and reset detection looks at the input ports only, and compares the
  lower-cased name with the aliases for equality: the classifier always returns, its
  clock flag holds exactly when some input port is named \<open>clk\<close> or \<open>clock\<close> up to
  case, and its reset flag exactly when some input port is named \<open>rst\<close> or \<open>reset\<close> up
  to case. Output ports and names that merely contain an alias never set a flag.
\<close>

theorem clock_reset_inputs_only:
  "\<exists>f. detect_port_features ps = Inr f
     \<and> has_clk f = (\<exists>p\<in>set (inputs ps). lower (fst p) = ''clk'' \<or> lower (fst p) = ''clock'')
     \<and> has_rst f = (\<exists>p\<in>set (inputs ps). lower (fst p) = ''rst'' \<or> lower (fst p) = ''reset'')"
proof -
  let ?f0 = "\<lparr>has_clk = False, has_rst = False, has_multibit = False, max_width = 0,
              num_inputs = length (inputs ps), num_outputs = length (outputs ps)\<rparr>"
  obtain f where f: "sum_fold width_step (inputs ps @ outputs ps) (foldl clock_step ?f0 (inputs ps)) = Inr f"
    "has_clk f = has_clk (foldl clock_step ?f0 (inputs ps))"
    "has_rst f = has_rst (foldl clock_step ?f0 (inputs ps))"
    using sum_fold_width_step_ok by blast
  then show ?thesis
    by (simp add: detect_port_features_def Let_def foldl_clock_step_clk foldl_clock_step_rst)
qed


text \<open>An output named \<open>clk\<close>, an output named \<open>RST\<close> and an input named \<open>clk_en\<close> set no
  flag; an input named \<open>Clock\<close> sets the clock flag.\<close>

theorem clock_reset_inputs_only_witness:
  "(\<exists>f. detect_port_features
          \<lparr>module_name = ''m'', inputs = [(''clk_en'', [])],
           outputs = [(''clk'', []), (''RST'', [])]\<rparr> = Inr f
        \<and> \<not> has_clk f \<and> \<not> has_rst f)
   \<and> (\<exists>f. detect_port_features
          \<lparr>module_name = ''m'', inputs = [(''Clock'', [])], outputs = []\<rparr> = Inr f
        \<and> has_clk f \<and> \<not> has_rst f)"
proof -
  have l1: "lower ''clk_en'' = ''clk_en''" by code_simp
  have l2: "lower ''Clock'' = ''clock''" by code_simp
  show ?thesis
    using clock_reset_inputs_only
            [of "\<lparr>module_name = ''m'', inputs = [(''clk_en'', [])],
                 outputs = [(''clk'', []), (''RST'', [])]\<rparr>"]
          clock_reset_inputs_only
            [of "\<lparr>module_name = ''m'', inputs = [(''Clock'', [])], outputs = []\<rparr>"]
    by (simp add: l1 l2)
qed

section \<open>Properties of the verification driver\<close>

lemma invoked_append: "invoked (a @ b) = invoked a @ invoked b"
  by (induction a rule: invoked.induct) simp_all

lemma fst_compile_dut: "fst (compile_dut r tr) = check_result r ''compile_dut''"
  by (simp add: compile_dut_def check_result_def run_cmd_def Let_def split: prod.splits)

lemma fst_elaborate_dut: "fst (elaborate_dut r tr) = check_result r ''elaborate_dut''"
  by (simp add: elaborate_dut_def check_result_def run_cmd_def Let_def split: prod.splits)

lemma fst_compile_tb: "fst (compile_tb r tr) = check_result r ''compile_tb''"
  by (simp add: compile_tb_def check_result_def run_cmd_def Let_def split: prod.splits)

lemma fst_run_simulation: "fst (run_simulation r tr) = check_result r ''run_simulation''"
  by (simp add: run_simulation_def check_result_def)

lemma invoked_compile_dut: "invoked (snd (compile_dut r tr)) = invoked tr @ [''compile_dut'']"
  by (simp add: compile_dut_def run_cmd_def Let_def invoked_append split: prod.splits)

lemma invoked_elaborate_dut: "invoked (snd (elaborate_dut r tr)) = invoked tr @ [''elaborate_dut'']"
  by (simp add: elaborate_dut_def run_cmd_def Let_def invoked_append split: prod.splits)

lemma invoked_compile_tb: "invoked (snd (compile_tb r tr)) = invoked tr @ [''compile_tb'']"
  by (simp add: compile_tb_def run_cmd_def Let_def invoked_append split: prod.splits)

lemma invoked_run_simulation: "invoked (snd (run_simulation r tr)) = invoked tr @ [''run_simulation'']"
  by (simp add: run_simulation_def invoked_append)

lemmas check_facts = fst_compile_dut fst_elaborate_dut fst_compile_tb fst_run_simulation
  invoked_compile_dut invoked_elaborate_dut invoked_compile_tb invoked_run_simulation

text \<open>
  Claim C1. The driver runs exactly the checks its mode prescribes, in order, and stops at
  the first check whose exit status is not 0: the checks it enters are the prescribed
  checks cut after the first failing one, its result dictionary holds exactly those
  checks with what each returned (the passing ones before the failing one included), the
  flag tells whether all of them passed, and the name is the failing check's, or \<open>ok\<close>.
  Mode \<open>compile_only\<close> prescribes \<open>compile_dut, compile_tb\<close>, mode \<open>compile_elaborate\<close>
  adds \<open>elaborate_dut\<close> between them, and every other mode (\<open>full_sim\<close>) prescribes all
  four.
\<close>

theorem run_flow_fail_fast:
  "fst (run_flow r mode []) =
     (let cs = fail_fast r (checks_for mode);
          ok = list_all (\<lambda>c. returncode (check_result r c) = 0) cs
      in (ok, (if ok then ''ok'' else last cs), map (\<lambda>c. (c, check_result r c)) cs))
   \<and> invoked (snd (run_flow r mode [])) = fail_fast r (checks_for mode)"
  by (simp add: run_flow_def checks_for_def Let_def split_beta check_facts)

lemma demo_cs: "fail_fast demo_runner (checks_for ''full_sim'') = [''compile_dut'', ''elaborate_dut'']"
  by (simp add: demo_runner_def checks_for_def check_result_def compile_dut_def elaborate_dut_def
      run_cmd_def Let_def)

text \<open>A run in mode \<open>full_sim\<close> whose elaboration fails: \<open>compile_tb\<close> and
  \<open>run_simulation\<close> are never entered.\<close>

theorem run_flow_fail_fast_witness:
  "fst (run_flow demo_runner ''full_sim'' []) =
     (False, ''elaborate_dut'',
      [(''compile_dut'', check_result demo_runner ''compile_dut''),
       (''elaborate_dut'', check_result demo_runner ''elaborate_dut'')])
   \<and> returncode (check_result demo_runner ''compile_dut'') = 0
   \<and> returncode (check_result demo_runner ''elaborate_dut'') = 1
   \<and> invoked (snd (run_flow demo_runner ''full_sim'' [])) = [''compile_dut'', ''elaborate_dut'']"
proof -
  have rc1: "returncode (check_result demo_runner ''compile_dut'') = 0"
    by (simp add: demo_runner_def check_result_def compile_dut_def run_cmd_def Let_def)
  have rc2: "returncode (check_result demo_runner ''elaborate_dut'') = 1"
    by (simp add: demo_runner_def check_result_def elaborate_dut_def run_cmd_def Let_def)
  show ?thesis
    using run_flow_fail_fast [of demo_runner "''full_sim''"]
    by (simp add: demo_cs rc1 rc2 Let_def)
qed


section \<open>Properties of the classification and the feedback\<close>

lemma length_takeWhile_less: "x \<in> set cs \<Longrightarrow> \<not> P x \<Longrightarrow> length (takeWhile P cs) < length cs"
  by (induction cs) auto

lemma py_format_plain: "CHR ''{'' \<notin> set t \<Longrightarrow> py_format t kw = Some t"
  by (induction t) auto

lemma py_format_append:
  "closed_tpl a \<Longrightarrow>
   py_format (a @ b) kw =
     (case py_format a kw of None \<Rightarrow> None | Some x \<Rightarrow> map_option (\<lambda>r. x @ r) (py_format b kw))"
proof (induction a kw rule: py_format.induct)
  case (1 kw)
  show ?case by (cases "py_format b kw") simp_all
next
  case (2 c cs kw)
  show ?case
  proof (cases "c = CHR ''{''")
    case False
    with 2 show ?thesis
      by (cases "py_format cs kw"; cases "py_format b kw") auto
  next
    case True
    let ?key = "takeWhile (\<lambda>x. x \<noteq> CHR ''}'') cs"
    from True 2(3) have mem: "CHR ''}'' \<in> set cs"
      and cl: "closed_tpl (drop (Suc (length ?key)) cs)" by simp_all
    have tw: "takeWhile (\<lambda>x. x \<noteq> CHR ''}'') (cs @ b) = ?key"
      using mem by (simp add: takeWhile_append1)
    have "length ?key < length cs" using mem by (rule length_takeWhile_less) simp
    then have dr: "drop (Suc (length ?key)) (cs @ b) = drop (Suc (length ?key)) cs @ b" by simp
    show ?thesis
    proof (cases "map_of kw ?key")
      case None
      with True tw show ?thesis by simp
    next
      case (Some v)
      have ih: "py_format (drop (Suc (length ?key)) cs @ b) kw =
          (case py_format (drop (Suc (length ?key)) cs) kw of None \<Rightarrow> None
           | Some x \<Rightarrow> map_option (\<lambda>r. x @ r) (py_format b kw))"
        using 2(1) [OF True refl Some cl] .
      show ?thesis
        using True Some tw dr ih
        by (cases "py_format (drop (Suc (length ?key)) cs) kw"; cases "py_format b kw")
           (auto simp: Let_def)
    qed
  qed
qed

lemma py_format_Some:
  "set (tpl_fields t) \<subseteq> dom (map_of kw) \<Longrightarrow> \<exists>x. py_format t kw = Some x"
proof (induction t kw rule: py_format.induct)
  case (1 kw)
  show ?case by simp
next
  case (2 c cs kw)
  show ?case
  proof (cases "c = CHR ''{''")
    case False
    with 2 show ?thesis by auto
  next
    case True
    let ?key = "takeWhile (\<lambda>x. x \<noteq> CHR ''}'') cs"
    from True 2(3) obtain v where v: "map_of kw ?key = Some v"
      by (auto simp: Let_def)
    from True 2(3) have "set (tpl_fields (drop (Suc (length ?key)) cs)) \<subseteq> dom (map_of kw)"
      by (simp add: Let_def)
    from 2(1) [OF True refl v this] True v show ?thesis by (auto simp: Let_def)
  qed
qed


lemma pin_names_ok: "\<exists>ns. pin_names ls = Inr ns"
proof (induction ls)
  case Nil
  then show ?case by simp
next
  case (Cons l ls)
  then obtain ns where ns: "pin_names ls = Inr ns" by blast
  show ?case
  proof (cases "re_search pin_rx l")
    case None
    with ns show ?thesis by simp
  next
    case (Some m)
    then have "length (groups m) = 1" by (auto dest: re_search_groups simp: pin_rx_def)
    with Some ns show ?thesis by (simp add: group_def sum_bind_def)
  qed
qed

lemma pin_names_nonempty:
  "\<exists>l\<in>set ls. re_search pin_rx l \<noteq> None \<Longrightarrow> \<exists>n ns. pin_names ls = Inr (n # ns)"
proof (induction ls)
  case Nil
  then show ?case by simp
next
  case (Cons l ls)
  obtain ns where ns: "pin_names ls = Inr ns" using pin_names_ok by blast
  show ?case
  proof (cases "re_search pin_rx l")
    case None
    with Cons show ?thesis by auto
  next
    case (Some m)
    then have "length (groups m) = 1" by (auto dest: re_search_groups simp: pin_rx_def)
    with Some ns show ?thesis by (simp add: group_def sum_bind_def)
  qed
qed

lemma parse_width_error_ok: "\<exists>info. parse_width_error es = Inr info
   \<and> info_port info = (case re_search port_rx es of Some m \<Rightarrow> Some (groups m ! 0) | None \<Rightarrow> None)"
proof -
  have p: "\<And>m. re_search port_rx es = Some m \<Longrightarrow> length (groups m) = 1"
    by (auto dest: re_search_groups simp: port_rx_def)
  have b: "\<And>m. re_search bits_rx es = Some m \<Longrightarrow> length (groups m) = 2"
    by (auto dest: re_search_groups simp: bits_rx_def)
  show ?thesis
    by (cases "re_search port_rx es"; cases "re_search bits_rx es")
       (auto simp: parse_width_error_def sum_bind_def group_def dest!: p b)
qed


lemma widthtrunc_split:
  "tpl_WIDTHTRUNC =
     before (''    {correct_declaration}'' @ [NL]) tpl_WIDTHTRUNC
       @ (''    {correct_declaration}'' @ [NL])
       @ after (''    {correct_declaration}'' @ [NL]) tpl_WIDTHTRUNC"
  by code_simp

lemma widthtrunc_before_closed:
  "closed_tpl (before (''    {correct_declaration}'' @ [NL]) tpl_WIDTHTRUNC)"
  by code_simp

lemma widthtrunc_before_fields:
  "tpl_fields (before (''    {correct_declaration}'' @ [NL]) tpl_WIDTHTRUNC)
     = [''port'', ''expected_width'', ''actual_width'']"
  by code_simp

lemma widthtrunc_after_plain:
  "CHR ''{'' \<notin> set (after (''    {correct_declaration}'' @ [NL]) tpl_WIDTHTRUNC)"
  by code_simp

lemma format_widthtrunc:
  "\<exists>pre. get_fix_for_error_type ''WIDTHTRUNC''
            [(''port'', p), (''expected_width'', e), (''actual_width'', a),
             (''correct_declaration'', d)]
          = pre @ (''    '' @ d @ [NL]) @ after (''    {correct_declaration}'' @ [NL]) tpl_WIDTHTRUNC"
proof -
  let ?kw = "[(''port'', p), (''expected_width'', e), (''actual_width'', a),
              (''correct_declaration'', d)]"
  let ?F = "''    {correct_declaration}'' @ [NL]"
  let ?B = "before ?F tpl_WIDTHTRUNC"
  let ?A = "after ?F tpl_WIDTHTRUNC"
  have "set (tpl_fields ?B) \<subseteq> dom (map_of ?kw)"
    unfolding widthtrunc_before_fields by simp
  then obtain x where x: "py_format ?B ?kw = Some x" using py_format_Some by blast
  have f: "py_format ?F ?kw = Some (''    '' @ d @ [NL])" by (simp add: NL_def)
  have cf: "closed_tpl ?F" by (simp add: NL_def)
  have pa: "py_format ?A ?kw = Some ?A"
    by (rule py_format_plain [OF widthtrunc_after_plain])
  have fa: "py_format (?F @ ?A) ?kw = Some ((''    '' @ d @ [NL]) @ ?A)"
    using py_format_append [OF cf, of ?A ?kw] f pa by simp
  have "py_format (?B @ ?F @ ?A) ?kw = Some (x @ (''    '' @ d @ [NL]) @ ?A)"
    using py_format_append [OF widthtrunc_before_closed, of "?F @ ?A" ?kw] x fa by simp
  then have "py_format tpl_WIDTHTRUNC ?kw = Some (x @ (''    '' @ d @ [NL]) @ ?A)"
    using widthtrunc_split by simp
  moreover have "map_of ERROR_FIX_TEMPLATES ''WIDTHTRUNC'' = Some tpl_WIDTHTRUNC"
    by (simp add: ERROR_FIX_TEMPLATES_def)
  ultimately show ?thesis
    by (simp add: get_fix_for_error_type_def)
qed

lemma pin_fixes_ok: "\<exists>f. pin_fixes es ps = Inr f"
proof -
  obtain ns where "parse_pinmissing_error es = Inr ns"
    unfolding parse_pinmissing_error_def using pin_names_ok by blast
  then show ?thesis by (simp add: pin_fixes_def sum_bind_def Let_def)
qed

text \<open>
  Claim C9. The width-mismatch fix takes its declaration from the interface descriptor.
  Whenever the diagnostic carries a width marker and names the port \<open>data\<close> (the first
  \<open>port '<name>'\<close> in it), and the descriptor gives \<open>data\<close> the width \<open>[7:0]\<close>, the fix
  block is the \<open>WIDTHTRUNC\<close> template filled with the declaration \<open>reg [7:0] data;\<close>; the
  block, and with it the synthesized feedback, holds the line \<open>    reg [7:0] data;\<close>.
  The numbers of the diagnostic only fill the fields \<open>expected_width\<close> and
  \<open>actual_width\<close>.
\<close>

theorem width_fix_uses_descriptor:
  assumes marker: "str_contains ''WIDTHTRUNC'' es \<or> str_contains ''WIDTHEXPAND'' es"
    and names: "\<exists>m. re_search port_rx es = Some m \<and> groups m = [''data'']"
    and descr: "map_of (inputs ps @ outputs ps) ''data'' = Some ''[7:0]''"
  shows "\<exists>e a pre post out.
           width_fixes es ps =
             Inr [get_fix_for_error_type ''WIDTHTRUNC''
                    [(''port'', ''data''), (''expected_width'', e), (''actual_width'', a),
                     (''correct_declaration'', ''reg [7:0] data;'')]]
         \<and> get_fix_for_error_type ''WIDTHTRUNC''
               [(''port'', ''data''), (''expected_width'', e), (''actual_width'', a),
                (''correct_declaration'', ''reg [7:0] data;'')]
             = pre @ (''    reg [7:0] data;'' @ [NL]) @ post
         \<and> generate_targeted_error_prompt es ps = Inr out
         \<and> str_contains (''    reg [7:0] data;'' @ [NL]) out"
proof -
  from names obtain m where m: "re_search port_rx es = Some m" "groups m = [''data'']" by blast
  obtain info where info: "parse_width_error es = Inr info" "info_port info = Some ''data''"
    using parse_width_error_ok [of es] m by auto
  define e where "e = (case expected_width info of Some x \<Rightarrow> x | None \<Rightarrow> ''N bits'')"
  define a where "a = (case actual_width info of Some x \<Rightarrow> x | None \<Rightarrow> ''M bits'')"
  let ?blk = "get_fix_for_error_type ''WIDTHTRUNC''
                [(''port'', ''data''), (''expected_width'', e), (''actual_width'', a),
                 (''correct_declaration'', ''reg [7:0] data;'')]"
  have wf: "width_fixes es ps = Inr [?blk]"
    using marker info descr by (simp add: width_fixes_def sum_bind_def Let_def e_def a_def)
  obtain pre where pre: "?blk = pre @ (''    '' @ ''reg [7:0] data;'' @ [NL])
      @ after (''    {correct_declaration}'' @ [NL]) tpl_WIDTHTRUNC"
    using format_widthtrunc [of "''data''" e a "''reg [7:0] data;''"] by blast
  then have shape: "?blk = pre @ (''    reg [7:0] data;'' @ [NL])
      @ after (''    {correct_declaration}'' @ [NL]) tpl_WIDTHTRUNC"
    by simp
  then have in_blk: "str_contains (''    reg [7:0] data;'' @ [NL]) ?blk"
    unfolding str_contains_iff by blast
  obtain f1 where f1: "pin_fixes es ps = Inr f1" using pin_fixes_ok by blast
  let ?fixes = "f1 @ [?blk] @ module_fixes es ps"
  have out: "generate_targeted_error_prompt es ps = Inr (join [NL, NL] ?fixes)"
    using f1 wf by (simp add: generate_targeted_error_prompt_def sum_bind_def Let_def)
  have "str_contains ?blk (join [NL, NL] ?fixes)"
    by (rule str_contains_join) simp
  with in_blk have "str_contains (''    reg [7:0] data;'' @ [NL]) (join [NL, NL] ?fixes)"
    by (rule str_contains_trans)
  with wf shape out show ?thesis by blast
qed


text \<open>A diagnostic that speaks of 4 and 16 bits, for a port declared \<open>[7:0]\<close>.\<close>

theorem width_fix_uses_descriptor_witness:
  "(str_contains ''WIDTHTRUNC'' demo_width_diag \<or> str_contains ''WIDTHEXPAND'' demo_width_diag)
   \<and> (\<exists>m. re_search port_rx demo_width_diag = Some m \<and> groups m = [''data''])
   \<and> map_of (inputs demo_ports @ outputs demo_ports) ''data'' = Some ''[7:0]''
   \<and> (\<exists>e a pre post out.
           width_fixes demo_width_diag demo_ports =
             Inr [get_fix_for_error_type ''WIDTHTRUNC''
                    [(''port'', ''data''), (''expected_width'', e), (''actual_width'', a),
                     (''correct_declaration'', ''reg [7:0] data;'')]]
         \<and> get_fix_for_error_type ''WIDTHTRUNC''
               [(''port'', ''data''), (''expected_width'', e), (''actual_width'', a),
                (''correct_declaration'', ''reg [7:0] data;'')]
             = pre @ (''    reg [7:0] data;'' @ [NL]) @ post
         \<and> generate_targeted_error_prompt demo_width_diag demo_ports = Inr out
         \<and> str_contains (''    reg [7:0] data;'' @ [NL]) out)"
proof -
  have h1: "str_contains ''WIDTHTRUNC'' demo_width_diag \<or> str_contains ''WIDTHEXPAND'' demo_width_diag"
    by code_simp
  have "re_search port_rx demo_width_diag = Some \<lparr>m_start = 31, m_end = 42, groups = [''data'']\<rparr>"
    by code_simp
  then have h2: "\<exists>m. re_search port_rx demo_width_diag = Some m \<and> groups m = [''data'']"
    by simp
  have h3: "map_of (inputs demo_ports @ outputs demo_ports) ''data'' = Some ''[7:0]''"
    by (simp add: demo_ports_def)
  show ?thesis
    using width_fix_uses_descriptor [OF h1 h2 h3] h1 h2 h3 by blast
qed

lemma plain_closed: "CHR ''{'' \<notin> set t \<Longrightarrow> closed_tpl t"
  by (induction t) auto

lemma fix_has_header:
  assumes tpl: "map_of ERROR_FIX_TEMPLATES k = Some (h @ r)"
    and plain: "CHR ''{'' \<notin> set h"
    and hdr: "str_contains x h"
  shows "str_contains x (get_fix_for_error_type k kw)"
proof -
  have ph: "py_format h kw = Some h" using plain by (rule py_format_plain)
  have cl: "closed_tpl h" using plain by (rule plain_closed)
  have "\<exists>t. get_fix_for_error_type k kw = h @ t"
  proof (cases "py_format r kw")
    case None
    then have "py_format (h @ r) kw = None"
      using py_format_append [OF cl, of r kw] ph by simp
    with tpl show ?thesis by (simp add: get_fix_for_error_type_def)
  next
    case (Some y)
    then have "py_format (h @ r) kw = Some (h @ y)"
      using py_format_append [OF cl, of r kw] ph by simp
    with tpl show ?thesis by (simp add: get_fix_for_error_type_def)
  qed
  then obtain t where "get_fix_for_error_type k kw = h @ t" by blast
  with hdr show ?thesis by (simp add: str_contains_appendI1)
qed

lemma pinmissing_split:
  "tpl_PINMISSING = before ''{'' tpl_PINMISSING @ (''{'' @ after ''{'' tpl_PINMISSING)"
  by code_simp

lemma pinmissing_before_plain: "CHR ''{'' \<notin> set (before ''{'' tpl_PINMISSING)"
  by code_simp

lemma pinmissing_before_header:
  "str_contains ''CRITICAL ERROR: Missing Port Connection'' (before ''{'' tpl_PINMISSING)"
  by code_simp

lemma pinmissing_header:
  "str_contains ''CRITICAL ERROR: Missing Port Connection'' (get_fix_for_error_type ''PINMISSING'' kw)"
proof -
  have "map_of ERROR_FIX_TEMPLATES ''PINMISSING'' = Some tpl_PINMISSING"
    by (simp add: ERROR_FIX_TEMPLATES_def)
  then have "map_of ERROR_FIX_TEMPLATES ''PINMISSING''
      = Some (before ''{'' tpl_PINMISSING @ (''{'' @ after ''{'' tpl_PINMISSING))"
    using pinmissing_split by simp
  then show ?thesis
    using pinmissing_before_plain pinmissing_before_header by (rule fix_has_header)
qed

lemma widthtrunc_split_head:
  "tpl_WIDTHTRUNC = before ''{'' tpl_WIDTHTRUNC @ (''{'' @ after ''{'' tpl_WIDTHTRUNC)"
  by code_simp

lemma widthtrunc_before_plain: "CHR ''{'' \<notin> set (before ''{'' tpl_WIDTHTRUNC)"
  by code_simp

lemma widthtrunc_before_header:
  "str_contains ''CRITICAL ERROR: Bit Width Mismatch'' (before ''{'' tpl_WIDTHTRUNC)"
  by code_simp

lemma widthtrunc_header:
  "str_contains ''CRITICAL ERROR: Bit Width Mismatch'' (get_fix_for_error_type ''WIDTHTRUNC'' kw)"
proof -
  have "map_of ERROR_FIX_TEMPLATES ''WIDTHTRUNC'' = Some tpl_WIDTHTRUNC"
    by (simp add: ERROR_FIX_TEMPLATES_def)
  then have "map_of ERROR_FIX_TEMPLATES ''WIDTHTRUNC''
      = Some (before ''{'' tpl_WIDTHTRUNC @ (''{'' @ after ''{'' tpl_WIDTHTRUNC))"
    using widthtrunc_split_head by simp
  then show ?thesis
    using widthtrunc_before_plain widthtrunc_before_header by (rule fix_has_header)
qed

lemma widthtrunc_template_header:
  "str_contains ''CRITICAL ERROR: Bit Width Mismatch'' tpl_WIDTHTRUNC"
  by code_simp

lemma width_fixes_block:
  assumes "str_contains ''WIDTHTRUNC'' es \<or> str_contains ''WIDTHEXPAND'' es"
  shows "\<exists>b. width_fixes es ps = Inr [b] \<and> str_contains ''CRITICAL ERROR: Bit Width Mismatch'' b"
proof -
  obtain info where info: "parse_width_error es = Inr info"
    using parse_width_error_ok by blast
  show ?thesis
  proof (cases "info_port info")
    case None
    with assms info show ?thesis
      by (simp add: width_fixes_def sum_bind_def widthtrunc_template_header)
  next
    case (Some p)
    with assms info show ?thesis
      by (simp add: width_fixes_def sum_bind_def Let_def widthtrunc_header)
  qed
qed

lemma pin_fixes_block:
  assumes "str_contains ''PINMISSING'' es"
    and "\<exists>l\<in>set (split_on NL es). re_search pin_rx l \<noteq> None"
  shows "\<exists>b. pin_fixes es ps = Inr [b] \<and> str_contains ''CRITICAL ERROR: Missing Port Connection'' b"
proof -
  obtain n ns where "parse_pinmissing_error es = Inr (n # ns)"
    unfolding parse_pinmissing_error_def using pin_names_nonempty [OF assms(2)] by blast
  with assms(1) show ?thesis
    by (simp add: pin_fixes_def sum_bind_def Let_def pinmissing_header)
qed

text \<open>
  Claim C8. Classification aggregates. Whenever the diagnostic text holds the marker
  \<open>PINMISSING\<close> with a quoted missing pin name on some line, and a width marker
  (\<open>WIDTHTRUNC\<close> or \<open>WIDTHEXPAND\<close>), the feedback holds both fix blocks: the
  missing-connection block first, then the width-mismatch block, then the module block if
  there is one, joined by blank lines.
\<close>

theorem diagnostics_aggregate:
  assumes pin: "str_contains ''PINMISSING'' es"
    and quoted: "\<exists>l\<in>set (split_on NL es). re_search pin_rx l \<noteq> None"
    and width: "str_contains ''WIDTHTRUNC'' es \<or> str_contains ''WIDTHEXPAND'' es"
  shows "\<exists>pin_block width_block.
           pin_fixes es ps = Inr [pin_block]
         \<and> width_fixes es ps = Inr [width_block]
         \<and> str_contains ''CRITICAL ERROR: Missing Port Connection'' pin_block
         \<and> str_contains ''CRITICAL ERROR: Bit Width Mismatch'' width_block
         \<and> generate_targeted_error_prompt es ps
             = Inr (join [NL, NL] (pin_block # width_block # module_fixes es ps))"
proof -
  obtain pb where pb: "pin_fixes es ps = Inr [pb]"
    "str_contains ''CRITICAL ERROR: Missing Port Connection'' pb"
    using pin_fixes_block [OF pin quoted] by blast
  obtain wb where wb: "width_fixes es ps = Inr [wb]"
    "str_contains ''CRITICAL ERROR: Bit Width Mismatch'' wb"
    using width_fixes_block [OF width] by blast
  have "generate_targeted_error_prompt es ps = Inr (join [NL, NL] (pb # wb # module_fixes es ps))"
    using pb(1) wb(1) by (simp add: generate_targeted_error_prompt_def sum_bind_def Let_def)
  with pb wb show ?thesis by blast
qed

text \<open>A diagnostic with a missing pin and a width expansion.\<close>

theorem diagnostics_aggregate_witness:
  "str_contains ''PINMISSING'' demo_both_diag
   \<and> (\<exists>l\<in>set (split_on NL demo_both_diag). re_search pin_rx l \<noteq> None)
   \<and> (str_contains ''WIDTHTRUNC'' demo_both_diag \<or> str_contains ''WIDTHEXPAND'' demo_both_diag)
   \<and> (\<exists>pin_block width_block.
           pin_fixes demo_both_diag demo_ports = Inr [pin_block]
         \<and> width_fixes demo_both_diag demo_ports = Inr [width_block]
         \<and> str_contains ''CRITICAL ERROR: Missing Port Connection'' pin_block
         \<and> str_contains ''CRITICAL ERROR: Bit Width Mismatch'' width_block
         \<and> generate_targeted_error_prompt demo_both_diag demo_ports
             = Inr (join [NL, NL] (pin_block # width_block # module_fixes demo_both_diag demo_ports)))"
proof -
  have h1: "str_contains ''PINMISSING'' demo_both_diag" by code_simp
  have h2: "\<exists>l\<in>set (split_on NL demo_both_diag). re_search pin_rx l \<noteq> None" by code_simp
  have h3: "str_contains ''WIDTHTRUNC'' demo_both_diag \<or> str_contains ''WIDTHEXPAND'' demo_both_diag"
    by code_simp
  show ?thesis
    using diagnostics_aggregate [OF h1 h2 h3] h1 h2 h3 by blast
qed


end
